theory Spec2Isabelle
  imports Complex_Main
begin

section \<open>The windowed sample indexer \<open>XRTimeSeries\<close>\<close>

text \<open>
  A shallow embedding of the class \<open>XRTimeSeries\<close> of the notebook
  \<^verbatim>\<open>brenowitz-data-loading.ipynb\<close>: its constructor, \<open>setup_indices\<close>,
  \<open>__len__\<close>, \<open>__getitem__\<close>, \<open>time_dim\<close>, \<open>torch_constants\<close> and \<open>scale\<close>.
  Python exceptions are values of the type \<open>error\<close>; a method that may raise returns
  \<open>error + 'r\<close>, with \<open>Inl\<close> for the exception.
\<close>

subsection \<open>Python values\<close>

datatype error =
  AssertionError | IndexError | KeyError | AttributeError | NameError
  | ValueError | ZeroDivisionError

text \<open>
  The name of a data variable is any hashable Python value; strings and integers are
  the two kinds the development distinguishes.
\<close>

datatype pyname = StrName string | IntName int

fun is_str :: "pyname \<Rightarrow> bool" where
  "is_str (StrName s) = True"
| "is_str (IntName n) = False"

text \<open>
  \<open>range(start, stop, step)\<close>: a zero step raises \<open>ValueError\<close>; otherwise the
  elements are \<open>start + k * step\<close> for \<open>k\<close> below the length CPython computes.
\<close>

definition range_len :: "int \<Rightarrow> int \<Rightarrow> int \<Rightarrow> nat" where
  "range_len start stop step =
     (if 0 < step then (if start < stop then nat ((stop - start - 1) div step + 1) else 0)
      else (if stop < start then nat ((start - stop - 1) div (- step) + 1) else 0))"

definition py_range :: "int \<Rightarrow> int \<Rightarrow> int \<Rightarrow> error + int list" where
  "py_range start stop step =
     (if step = 0 then Inl ValueError
      else Inr (map (\<lambda>k. start + int k * step) [0..<range_len start stop step]))"

text \<open>\<open>a % b\<close> on integers: the sign of the divisor, \<open>ZeroDivisionError\<close> at \<open>b = 0\<close>.\<close>

definition py_mod :: "int \<Rightarrow> int \<Rightarrow> error + int" where
  "py_mod a b = (if b = 0 then Inl ZeroDivisionError else Inr (a mod b))"



text \<open>
  \<open>itertools.product(ts, ys, xs)\<close>: the rightmost argument advances fastest. The triple
  \<open>(t, y, x)\<close> is the nested pair \<open>(t, (y, x))\<close>.
\<close>

definition product :: "'b list \<Rightarrow> 'c list \<Rightarrow> 'd list \<Rightarrow> ('b \<times> 'c \<times> 'd) list" where
  "product ts ys xs = List.product ts (List.product ys xs)"

subsection \<open>numpy arrays\<close>

text \<open>
  An array is its shape, its element type and its elements in row-major order. The
  elements are of an arbitrary type \<open>'a\<close>; the numeric conversion \<open>astype\<close> performs
  on each element is a parameter \<open>cast\<close> of the model, since floating-point rounding
  is not modelled.
\<close>

datatype dtype = Float64 | Float32

record 'a ndarray =
  shape :: "nat list"
  dtype :: dtype
  flat :: "'a list"

text \<open>
  One entry of an index tuple: an integer, a slice \<open>slice(a, b)\<close> of step 1 (either
  bound may be \<open>None\<close>), or \<open>np.newaxis\<close>, which is \<open>None\<close>.
\<close>

datatype index_item = Idx int | Slc "int option" "int option" | NewAxis

definition clip :: "int \<Rightarrow> nat \<Rightarrow> nat" where
  "clip i n = (if i < 0 then nat (max 0 (i + int n)) else min (nat i) n)"

definition slice_start :: "int option \<Rightarrow> nat \<Rightarrow> nat" where
  "slice_start a n = (case a of None \<Rightarrow> 0 | Some i \<Rightarrow> clip i n)"

definition slice_stop :: "int option \<Rightarrow> nat \<Rightarrow> nat" where
  "slice_stop b n = (case b of None \<Rightarrow> n | Some i \<Rightarrow> clip i n)"

definition norm_index :: "int \<Rightarrow> nat \<Rightarrow> nat" where
  "norm_index i n = (if i < 0 then nat (i + int n) else nat i)"

text \<open>
  \<open>xs[i]\<close> on a list or a tuple: an index below zero counts from the end, one
  outside \<open>[-len, len)\<close> raises \<open>IndexError\<close>.
\<close>

definition list_getitem :: "'b list \<Rightarrow> int \<Rightarrow> error + 'b" where
  "list_getitem xs i =
     (if i < - int (length xs) \<or> int (length xs) \<le> i then Inl IndexError
      else Inr (xs ! norm_index i (length xs)))"

text \<open>
  The shape basic indexing gives, or \<open>IndexError\<close>: an integer out of the axis, or
  more integers and slices than the array has axes.
\<close>

fun index_shape :: "index_item list \<Rightarrow> nat list \<Rightarrow> error + nat list" where
  "index_shape [] sh = Inr sh"
| "index_shape (NewAxis # its) sh =
     (case index_shape its sh of Inl e \<Rightarrow> Inl e | Inr r \<Rightarrow> Inr (1 # r))"
| "index_shape (Idx i # its) [] = Inl IndexError"
| "index_shape (Slc a b # its) [] = Inl IndexError"
| "index_shape (Idx i # its) (n # sh) =
     (if - int n \<le> i \<and> i < int n then index_shape its sh else Inl IndexError)"
| "index_shape (Slc a b # its) (n # sh) =
     (case index_shape its sh of Inl e \<Rightarrow> Inl e
      | Inr r \<Rightarrow> Inr ((slice_stop b n - slice_start a n) # r))"

definition block :: "nat \<Rightarrow> nat \<Rightarrow> 'a list \<Rightarrow> 'a list" where
  "block k m xs = take m (drop (k * m) xs)"

text \<open>The elements selected, in row-major order of the result.\<close>

fun index_data :: "index_item list \<Rightarrow> nat list \<Rightarrow> 'a list \<Rightarrow> 'a list" where
  "index_data [] sh xs = xs"
| "index_data (NewAxis # its) sh xs = index_data its sh xs"
| "index_data (Idx i # its) [] xs = xs"
| "index_data (Slc a b # its) [] xs = xs"
| "index_data (Idx i # its) (n # sh) xs =
     index_data its sh (block (norm_index i n) (prod_list sh) xs)"
| "index_data (Slc a b # its) (n # sh) xs =
     concat (map (\<lambda>k. index_data its sh (block k (prod_list sh) xs))
       [slice_start a n..<slice_stop b n])"

definition nd_getitem :: "'a ndarray \<Rightarrow> index_item list \<Rightarrow> error + 'a ndarray" where
  "nd_getitem a its =
     (case index_shape its (shape a) of
        Inl e \<Rightarrow> Inl e
      | Inr sh \<Rightarrow> Inr \<lparr>shape = sh, dtype = dtype a, flat = index_data its (shape a) (flat a)\<rparr>)"

definition astype :: "(dtype \<Rightarrow> 'a \<Rightarrow> 'a) \<Rightarrow> dtype \<Rightarrow> 'a ndarray \<Rightarrow> 'a ndarray" where
  "astype cast d a = \<lparr>shape = shape a, dtype = d, flat = map (cast d) (flat a)\<rparr>"

definition np_ones :: "nat list \<Rightarrow> ('a::one) ndarray" where
  "np_ones sh = \<lparr>shape = sh, dtype = Float64, flat = replicate (prod_list sh) 1\<rparr>"

subsection \<open>The xarray dataset\<close>

text \<open>
  The dataset is the collaborator the class reads: the extent of each dimension
  (\<open>ds.sizes\<close>) and the data variables in their order, each with its dimension tuple
  and its array. Coordinate variables are not modelled: \<open>data['x']\<close> and \<open>data.time\<close>
  resolve to a dimension or fail.
\<close>

record 'a data_array =
  da_dims :: "string list"
  da_values :: "'a ndarray"

record 'a dataset =
  ds_sizes :: "string \<rightharpoonup> nat"
  ds_data_vars :: "(pyname \<times> 'a data_array) list"

definition ds_getitem :: "'a dataset \<Rightarrow> pyname \<Rightarrow> 'a data_array option" where
  "ds_getitem ds key = map_of (ds_data_vars ds) key"

text \<open>
  \<open>len(data[d].values)\<close> and \<open>len(data.d)\<close> for a dimension name \<open>d\<close>; the error is
  the one the access raises when \<open>d\<close> is not there.
\<close>

definition dim_len :: "'a dataset \<Rightarrow> string \<Rightarrow> error \<Rightarrow> error + nat" where
  "dim_len ds d e = (case ds_sizes ds d of None \<Rightarrow> Inl e | Some n \<Rightarrow> Inr n)"

text \<open>
  What xarray guarantees of a dataset: the variables have distinct names, and the
  shape of each array is the extents of its dimensions.
\<close>

definition wf_dataset :: "'a dataset \<Rightarrow> bool" where
  "wf_dataset ds =
     (distinct (map fst (ds_data_vars ds)) \<and>
      list_all (\<lambda>(k, v). map (ds_sizes ds) (da_dims v) = map Some (shape (da_values v)))
        (ds_data_vars ds))"

text \<open>
  The layout the class documents: ``This function assumes the data has dimensions
  ['time', 'z', 'y', 'x'], and that the axes of the data arrays are all stored in that
  order.'' A variable is a profile \<open>(time, z, y, x)\<close>, a surface field \<open>(time, y, x)\<close>,
  or has none of \<open>time\<close>, \<open>y\<close>, \<open>x\<close>.
\<close>

definition canonical_dims :: "string list \<Rightarrow> bool" where
  "canonical_dims ds =
     (ds = [''time'', ''z'', ''y'', ''x''] \<or> ds = [''time'', ''y'', ''x''] \<or>
      {''x'', ''y'', ''time''} \<inter> set ds = {})"

definition canonical_layout :: "'a dataset \<Rightarrow> bool" where
  "canonical_layout ds = list_all (\<lambda>(k, v). canonical_dims (da_dims v)) (ds_data_vars ds)"

subsection \<open>The class\<close>

text \<open>
  The attributes \<open>__init__\<close> sets, under their names; \<open>self.dims\<close> is the
  dictionary \<open>__init__\<close> assigns, which hides the class attribute \<open>dims\<close>, a list
  no method reads. \<open>data_vars\<close> and \<open>constants\<close> are
  Python sets; they are kept as duplicate-free lists in the order of the dataset, which
  fixes one of the orders in which Python may iterate them. \<open>std\<close> is the attribute
  \<open>scale\<close> reads: \<open>__init__\<close> never assigns it, and \<open>None\<close> is its absence.
\<close>

record 'a XRTimeSeries =
  time_length :: int
  data :: "'a dataset"
  numpy_data :: "pyname \<rightharpoonup> 'a ndarray"
  data_vars :: "pyname list"
  dims :: "pyname \<rightharpoonup> string list"
  constants :: "pyname list"
  indices :: "(int \<times> int \<times> int) list"
  std :: "(pyname \<times> 'a ndarray) list option"

text \<open>
  \<open>setup_indices\<close> reads \<open>self.data\<close> and \<open>self.time_length\<close> and assigns
  \<open>self.indices\<close>; the model returns the list. The three ranges are built before the
  assertion is evaluated.
\<close>

definition setup_indices :: "'a dataset \<Rightarrow> int \<Rightarrow> error + (int \<times> int \<times> int) list" where
  "setup_indices ds tlen =
     (case dim_len ds ''x'' KeyError of Inl e \<Rightarrow> Inl e | Inr len_x \<Rightarrow>
     (case dim_len ds ''y'' KeyError of Inl e \<Rightarrow> Inl e | Inr len_y \<Rightarrow>
     (case dim_len ds ''time'' KeyError of Inl e \<Rightarrow> Inl e | Inr len_t \<Rightarrow>
     (case py_range 0 (int len_x) 1 of Inl e \<Rightarrow> Inl e | Inr x_iter \<Rightarrow>
     (case py_range 0 (int len_y) 1 of Inl e \<Rightarrow> Inl e | Inr y_iter \<Rightarrow>
     (case py_range 0 (int len_t) tlen of Inl e \<Rightarrow> Inl e | Inr t_iter \<Rightarrow>
     (case py_mod (int len_t) tlen of Inl e \<Rightarrow> Inl e | Inr r \<Rightarrow>
        if r = 0 then Inr (product t_iter y_iter x_iter) else Inl AssertionError)))))))"

text \<open>
  \<open>time_length or len(data.time)\<close>: the right operand is evaluated only when the
  left one is falsy, that is \<open>None\<close> or \<open>0\<close>.
\<close>

definition or_len_time :: "int option \<Rightarrow> 'a dataset \<Rightarrow> error + int" where
  "or_len_time tlo ds =
     (if tlo \<noteq> None \<and> tlo \<noteq> Some 0 then Inr (the tlo)
      else case dim_len ds ''time'' AttributeError of Inl e \<Rightarrow> Inl e | Inr n \<Rightarrow> Inr (int n))"

definition is_constant :: "'a dataset \<Rightarrow> pyname \<Rightarrow> bool" where
  "is_constant ds key =
     (case ds_getitem ds key of
        None \<Rightarrow> False
      | Some v \<Rightarrow> {''x'', ''y'', ''time''} \<inter> set (da_dims v) = {})"

definition init :: "'a dataset \<Rightarrow> int option \<Rightarrow> error + 'a XRTimeSeries" where
  "init ds tlo =
     (case or_len_time tlo ds of Inl e \<Rightarrow> Inl e | Inr tlen \<Rightarrow>
     (case setup_indices ds tlen of Inl e \<Rightarrow> Inl e | Inr idx \<Rightarrow>
        Inr \<lparr>time_length = tlen,
             data = ds,
             numpy_data = map_option da_values \<circ> ds_getitem ds,
             data_vars = remdups (map fst (ds_data_vars ds)),
             dims = map_option da_dims \<circ> ds_getitem ds,
             constants = filter (is_constant ds) (remdups (map fst (ds_data_vars ds))),
             indices = idx,
             std = None\<rparr>))"

definition len :: "'a XRTimeSeries \<Rightarrow> nat" where
  "len self = length (indices self)"

text \<open>
  The body of the loop of \<open>__getitem__\<close> for a variable that is not a constant: the
  index tuple by whether \<open>z\<close> is among the variable's dimensions, the two trailing
  unit axes, the conversion to \<open>float32\<close>.
\<close>

definition getitem_var ::
  "(dtype \<Rightarrow> 'a \<Rightarrow> 'a) \<Rightarrow> 'a XRTimeSeries \<Rightarrow> int \<times> int \<times> int \<Rightarrow> pyname \<Rightarrow> error + 'a ndarray" where
  "getitem_var cast self idx key =
     (case idx of (t, y, x) \<Rightarrow>
     (case numpy_data self key of None \<Rightarrow> Inl KeyError | Some data_array \<Rightarrow>
     (case dims self key of None \<Rightarrow> Inl KeyError | Some d \<Rightarrow>
     (case nd_getitem data_array
             (if ''z'' \<in> set d
              then [Slc (Some t) (Some (t + time_length self)), Slc None None, Idx y, Idx x]
              else [Slc (Some t) (Some (t + time_length self)), NewAxis, Idx y, Idx x]) of
        Inl e \<Rightarrow> Inl e
      | Inr s \<Rightarrow>
     (case nd_getitem s [Slc None None, Slc None None, NewAxis, NewAxis] of
        Inl e \<Rightarrow> Inl e
      | Inr sample \<Rightarrow> Inr (astype cast Float32 sample))))))"

fun getitem_loop ::
  "(dtype \<Rightarrow> 'a \<Rightarrow> 'a) \<Rightarrow> 'a XRTimeSeries \<Rightarrow> int \<times> int \<times> int \<Rightarrow> pyname list \<Rightarrow>
   (pyname \<rightharpoonup> 'a ndarray) \<Rightarrow> error + (pyname \<rightharpoonup> 'a ndarray)" where
  "getitem_loop cast self idx [] output_tensors = Inr output_tensors"
| "getitem_loop cast self idx (key # keys) output_tensors =
     (if key \<in> set (constants self) then getitem_loop cast self idx keys output_tensors
      else case getitem_var cast self idx key of
             Inl e \<Rightarrow> Inl e
           | Inr sample \<Rightarrow> getitem_loop cast self idx keys (output_tensors(key \<mapsto> sample)))"

definition getitem ::
  "(dtype \<Rightarrow> 'a \<Rightarrow> 'a) \<Rightarrow> 'a XRTimeSeries \<Rightarrow> int \<Rightarrow> error + (pyname \<rightharpoonup> 'a ndarray)" where
  "getitem cast self i =
     (case list_getitem (indices self) i of
        Inl e \<Rightarrow> Inl e
      | Inr idx \<Rightarrow> getitem_loop cast self idx (data_vars self) Map.empty)"

text \<open>\<open>self.dims[0][0]\<close>: the dictionary of dimension tuples, at the key \<open>0\<close>.\<close>

definition time_dim :: "'a XRTimeSeries \<Rightarrow> error + string" where
  "time_dim self =
     (case dims self (IntName 0) of None \<Rightarrow> Inl KeyError | Some d \<Rightarrow> list_getitem d 0)"

subsection \<open>Names the methods take from the notebook's namespace\<close>

text \<open>
  \<open>torch_constants\<close> and \<open>scale\<close> read the global names \<open>torch\<close> and \<open>valmap\<close> when
  they run. The namespace is a parameter: the list of the names bound in it. The
  notebook binds the names of its import statements
  (\<^verbatim>\<open>import numpy as np\<close>, \<^verbatim>\<open>import xarray as xr\<close>,
  \<^verbatim>\<open>from itertools import product\<close>,
  \<^verbatim>\<open>from torch.utils.data import Dataset, DataLoader\<close>) and of its own
  definitions and assignments.
\<close>

definition notebook_globals :: "string list" where
  "notebook_globals =
     [''np'', ''xr'', ''product'', ''Dataset'', ''DataLoader'', ''XRTimeSeries'',
      ''get_xarray_dataset'', ''ds'', ''torch_dataset'', ''sample'', ''train_loader'',
      ''batch'']"

definition global_name :: "string list \<Rightarrow> string \<Rightarrow> error + unit" where
  "global_name g n = (if n \<in> set g then Inr () else Inl NameError)"

text \<open>
  A tensor, as far as \<open>torch_constants\<close> fixes it: \<open>torch.tensor(a, requires_grad=False)\<close>
  keeps the array's shape, element type and elements; \<open>.float()\<close> converts to \<open>float32\<close>.
\<close>

record 'a tensor =
  t_shape :: "nat list"
  t_dtype :: dtype
  t_data :: "'a list"
  requires_grad :: bool

definition torch_tensor :: "'a ndarray \<Rightarrow> bool \<Rightarrow> 'a tensor" where
  "torch_tensor a rg = \<lparr>t_shape = shape a, t_dtype = dtype a, t_data = flat a, requires_grad = rg\<rparr>"

definition tensor_float :: "(dtype \<Rightarrow> 'a \<Rightarrow> 'a) \<Rightarrow> 'a tensor \<Rightarrow> 'a tensor" where
  "tensor_float cast t = t\<lparr>t_dtype := Float32, t_data := map (cast Float32) (t_data t)\<rparr>"

fun torch_constants_loop ::
  "string list \<Rightarrow> (dtype \<Rightarrow> 'a \<Rightarrow> 'a) \<Rightarrow> 'a XRTimeSeries \<Rightarrow> pyname list \<Rightarrow>
   (pyname \<rightharpoonup> 'a tensor) \<Rightarrow> error + (pyname \<rightharpoonup> 'a tensor)" where
  "torch_constants_loop g cast self [] out = Inr out"
| "torch_constants_loop g cast self (key # keys) out =
     (case global_name g ''torch'' of Inl e \<Rightarrow> Inl e | Inr u \<Rightarrow>
     (case ds_getitem (data self) key of None \<Rightarrow> Inl KeyError | Some v \<Rightarrow>
        torch_constants_loop g cast self keys
          (out(key \<mapsto> tensor_float cast (torch_tensor (da_values v) False)))))"

definition torch_constants ::
  "string list \<Rightarrow> (dtype \<Rightarrow> 'a \<Rightarrow> 'a) \<Rightarrow> 'a XRTimeSeries \<Rightarrow> error + (pyname \<rightharpoonup> 'a tensor)" where
  "torch_constants g cast self = torch_constants_loop g cast self (constants self) Map.empty"

text \<open>
  \<open>scale\<close>: \<open>std = self.std\<close>, then \<open>valmap(lambda x: x.max(), std)\<close>. \<open>x.max()\<close> is
  the largest element of the whole array; of an empty array it raises \<open>ValueError\<close>.
  The elements are of a linearly ordered type here: a NaN, which is no element of such
  an order, is not modelled.
\<close>

definition nd_max :: "('a::linorder) ndarray \<Rightarrow> error + 'a" where
  "nd_max x = (if flat x = [] then Inl ValueError else Inr (Max (set (flat x))))"

fun valmap :: "('v \<Rightarrow> error + 'w) \<Rightarrow> ('k \<times> 'v) list \<Rightarrow> error + ('k \<times> 'w) list" where
  "valmap f [] = Inr []"
| "valmap f ((k, v) # kvs) =
     (case f v of Inl e \<Rightarrow> Inl e | Inr w \<Rightarrow>
     (case valmap f kvs of Inl e \<Rightarrow> Inl e | Inr r \<Rightarrow> Inr ((k, w) # r)))"

definition scale ::
  "string list \<Rightarrow> ('a::linorder) XRTimeSeries \<Rightarrow> error + (pyname \<times> 'a) list" where
  "scale g self =
     (case std self of None \<Rightarrow> Inl AttributeError | Some s \<Rightarrow>
     (case global_name g ''valmap'' of Inl e \<Rightarrow> Inl e | Inr u \<Rightarrow> valmap nd_max s))"

subsection \<open>The notebook's dataset\<close>

text \<open>
  \<open>get_xarray_dataset()\<close>: \<open>a\<close> of ones over \<open>(time, z, y, x)\<close> with shape \<open>(4, 4, 5, 2)\<close>
  and \<open>b\<close> of ones over \<open>(time, y, x)\<close> with shape \<open>(4, 5, 2)\<close>.
\<close>

definition get_xarray_dataset :: "real dataset" where
  "get_xarray_dataset =
     \<lparr>ds_sizes = [''time'' \<mapsto> 4, ''z'' \<mapsto> 4, ''y'' \<mapsto> 5, ''x'' \<mapsto> 2],
      ds_data_vars =
        [(StrName ''a'', \<lparr>da_dims = [''time'', ''z'', ''y'', ''x''], da_values = np_ones [4, 4, 5, 2]\<rparr>),
         (StrName ''b'', \<lparr>da_dims = [''time'', ''y'', ''x''], da_values = np_ones [4, 5, 2]\<rparr>)]\<rparr>"

text \<open>The same dataset with one more variable, \<open>c\<close> of ones over \<open>(z)\<close>: a constant.\<close>

definition dataset_with_constant :: "real dataset" where
  "dataset_with_constant =
     \<lparr>ds_sizes = [''time'' \<mapsto> 4, ''z'' \<mapsto> 4, ''y'' \<mapsto> 5, ''x'' \<mapsto> 2],
      ds_data_vars =
        [(StrName ''a'', \<lparr>da_dims = [''time'', ''z'', ''y'', ''x''], da_values = np_ones [4, 4, 5, 2]\<rparr>),
         (StrName ''b'', \<lparr>da_dims = [''time'', ''y'', ''x''], da_values = np_ones [4, 5, 2]\<rparr>),
         (StrName ''c'', \<lparr>da_dims = [''z''], da_values = np_ones [4]\<rparr>)]\<rparr>"

text \<open>
  \<open>torch_dataset = XRTimeSeries(ds, time_length=4)\<close>, the indexer the notebook
  builds, written out.
\<close>

definition torch_dataset :: "real XRTimeSeries" where
  "torch_dataset =
     \<lparr>time_length = 4,
      data = get_xarray_dataset,
      numpy_data = map_option da_values \<circ> ds_getitem get_xarray_dataset,
      data_vars = [StrName ''a'', StrName ''b''],
      dims = map_option da_dims \<circ> ds_getitem get_xarray_dataset,
      constants = [],
      indices = [(0, 0, 0), (0, 0, 1), (0, 1, 0), (0, 1, 1), (0, 2, 0), (0, 2, 1),
                 (0, 3, 0), (0, 3, 1), (0, 4, 0), (0, 4, 1)],
      std = None\<rparr>"

text \<open>A dataset of the same variables whose time axis is empty.\<close>

definition empty_time_dataset :: "real dataset" where
  "empty_time_dataset =
     \<lparr>ds_sizes = [''time'' \<mapsto> 0, ''z'' \<mapsto> 4, ''y'' \<mapsto> 5, ''x'' \<mapsto> 2],
      ds_data_vars =
        [(StrName ''a'', \<lparr>da_dims = [''time'', ''z'', ''y'', ''x''], da_values = np_ones [0, 4, 5, 2]\<rparr>),
         (StrName ''b'', \<lparr>da_dims = [''time'', ''y'', ''x''], da_values = np_ones [0, 5, 2]\<rparr>)]\<rparr>"

text \<open>No conversion error: the cast used where concrete inputs are evaluated.\<close>

definition exact_cast :: "dtype \<Rightarrow> real \<Rightarrow> real" where
  "exact_cast d x = x"

text \<open>The indexer \<open>XRTimeSeries(dataset_with_constant)\<close>, written out.\<close>

definition indexer_with_constant :: "real XRTimeSeries" where
  "indexer_with_constant =
     \<lparr>time_length = 4,
      data = dataset_with_constant,
      numpy_data = map_option da_values \<circ> ds_getitem dataset_with_constant,
      data_vars = [StrName ''a'', StrName ''b'', StrName ''c''],
      dims = map_option da_dims \<circ> ds_getitem dataset_with_constant,
      constants = [StrName ''c''],
      indices = [(0, 0, 0), (0, 0, 1), (0, 1, 0), (0, 1, 1), (0, 2, 0), (0, 2, 1),
                 (0, 3, 0), (0, 3, 1), (0, 4, 0), (0, 4, 1)],
      std = None\<rparr>"

text \<open>The shape of one variable in the result of a retrieval, for reading results off.\<close>

definition result_shape ::
  "error + (pyname \<rightharpoonup> 'a ndarray) \<Rightarrow> pyname \<Rightarrow> error + nat list option" where
  "result_shape r key = (case r of Inl e \<Rightarrow> Inl e | Inr out \<Rightarrow> Inr (map_option shape (out key)))"

text \<open>
  A dataset with a variable \<open>d\<close> of ones over \<open>(y, x)\<close>, which is not a constant and
  has no time axis, and its indexer \<open>XRTimeSeries(ds, time_length=4)\<close>, written out.
\<close>

definition dataset_with_yx_variable :: "real dataset" where
  "dataset_with_yx_variable =
     \<lparr>ds_sizes = [''time'' \<mapsto> 4, ''z'' \<mapsto> 4, ''y'' \<mapsto> 5, ''x'' \<mapsto> 2],
      ds_data_vars =
        [(StrName ''a'', \<lparr>da_dims = [''time'', ''z'', ''y'', ''x''], da_values = np_ones [4, 4, 5, 2]\<rparr>),
         (StrName ''d'', \<lparr>da_dims = [''y'', ''x''], da_values = np_ones [5, 2]\<rparr>)]\<rparr>"

definition indexer_with_yx_variable :: "real XRTimeSeries" where
  "indexer_with_yx_variable =
     \<lparr>time_length = 4,
      data = dataset_with_yx_variable,
      numpy_data = map_option da_values \<circ> ds_getitem dataset_with_yx_variable,
      data_vars = [StrName ''a'', StrName ''d''],
      dims = map_option da_dims \<circ> ds_getitem dataset_with_yx_variable,
      constants = [],
      indices = [(0, 0, 0), (0, 0, 1), (0, 1, 0), (0, 1, 1), (0, 2, 0), (0, 2, 1),
                 (0, 3, 0), (0, 3, 1), (0, 4, 0), (0, 4, 1)],
      std = None\<rparr>"

text \<open>
  The notebook's indexer after \<open>torch_dataset.std = {'b': np.array([2., 7., 5.])}\<close>:
  the statistic \<open>scale\<close> reads, supplied from outside.
\<close>

definition torch_dataset_with_std :: "real XRTimeSeries" where
  "torch_dataset_with_std =
     torch_dataset\<lparr>std := Some [(StrName ''b'', \<lparr>shape = [3], dtype = Float64, flat = [2, 7, 5]\<rparr>)]\<rparr>"

section \<open>Properties\<close>

subsection \<open>Indexing keeps an array well-formed\<close>

text \<open>
  An array is well-formed when it has as many elements as its shape says. Basic
  indexing keeps that: the elements \<open>index_data\<close> selects are as many as the shape
  \<open>index_shape\<close> computes.
\<close>

lemma block_length: "(k + 1) * m \<le> length xs \<Longrightarrow> length (block k m xs) = m"
  by (simp add: block_def)

lemma clip_le: "clip i n \<le> n"
  by (auto simp: clip_def)

lemma slice_stop_le: "slice_stop b n \<le> n"
  by (simp add: slice_stop_def clip_le split: option.splits)

lemma index_data_length:
  "index_shape its sh = Inr r \<Longrightarrow> length xs = prod_list sh \<Longrightarrow>
   length (index_data its sh xs) = prod_list r"
proof (induction its sh arbitrary: r xs rule: index_shape.induct)
  case (1 sh)
  then show ?case by simp
next
  case (2 its sh)
  then show ?case by (auto split: sum.splits)
next
  case (3 i its)
  then show ?case by simp
next
  case (4 a b its)
  then show ?case by simp
next
  case (5 i its n sh)
  from "5.prems"(1) have ok: "- int n \<le> i" "i < int n" and r: "index_shape its sh = Inr r"
    by (auto split: if_splits)
  have "norm_index i n < n" using ok by (auto simp: norm_index_def)
  then have "(norm_index i n + 1) * prod_list sh \<le> n * prod_list sh"
    by (intro mult_le_mono1) simp
  then have "length (block (norm_index i n) (prod_list sh) xs) = prod_list sh"
    using "5.prems"(2) by (intro block_length) simp
  from "5.IH" [OF _ r this] ok show ?case by simp
next
  case (6 a b its n sh)
  from "6.prems"(1) obtain r' where r': "index_shape its sh = Inr r'"
    and r: "r = (slice_stop b n - slice_start a n) # r'"
    by (auto split: sum.splits)
  have each: "length (index_data its sh (block k (prod_list sh) xs)) = prod_list r'"
    if "k < slice_stop b n" for k
  proof -
    from that slice_stop_le [of b n] have "k + 1 \<le> n" by simp
    then have "(k + 1) * prod_list sh \<le> n * prod_list sh" by (intro mult_le_mono1)
    then have "length (block k (prod_list sh) xs) = prod_list sh"
      using "6.prems"(2) by (intro block_length) simp
    from "6.IH" [OF r' this] show ?thesis .
  qed
  have "length (index_data (Slc a b # its) (n # sh) xs) =
      (\<Sum>k\<leftarrow>[slice_start a n..<slice_stop b n]. prod_list r')"
  proof -
    have eq: "map (\<lambda>k. length (index_data its sh (block k (prod_list sh) xs)))
            [slice_start a n..<slice_stop b n] =
          map (\<lambda>k. prod_list r') [slice_start a n..<slice_stop b n]"
      by (rule map_cong) (simp_all add: each)
    show ?thesis by (simp only: index_data.simps length_concat map_map comp_def eq)
  qed
  then show ?case by (simp add: r sum_list_triv)
qed

lemma nd_getitem_invariant:
  "nd_getitem a its = Inr r \<Longrightarrow> length (flat a) = prod_list (shape a) \<Longrightarrow>
   length (flat r) = prod_list (shape r)"
  by (auto simp: nd_getitem_def index_data_length split: sum.splits)

subsection \<open>Ranges and construction\<close>

lemma range_len_unit: "range_len 0 (int n) 1 = n"
  by (simp add: range_len_def)

lemma range_len_pos:
  assumes "0 < L" "int T mod L = 0"
  shows "range_len 0 (int T) L = T div nat L"
proof (cases "T = 0")
  case True
  then show ?thesis by (simp add: range_len_def)
next
  case False
  from assms obtain k where k: "int T = L * k" by (auto simp: mod_eq_0_iff_dvd)
  with assms False have kpos: "0 < k"
    by (metis of_nat_0_less_iff zero_less_mult_pos bot_nat_0.not_eq_extremum)
  have "(int T - 1) div L = k - 1"
  proof -
    have "int T - 1 = (k - 1) * L + (L - 1)" using k by (simp add: algebra_simps)
    then have "(int T - 1) div L = (k - 1) + (L - 1) div L"
      using assms(1) by (metis add.commute div_mult_self2 less_irrefl mult.commute)
    then show ?thesis using assms(1) by simp
  qed
  moreover have "int (T div nat L) = k"
    using k assms(1) by (simp add: zdiv_int)
  ultimately show ?thesis using False assms(1) by (simp add: range_len_def)
qed

lemma range_len_neg: "L < 0 \<Longrightarrow> range_len 0 (int T) L = 0"
  by (simp add: range_len_def)

lemma setup_indices_dims:
  assumes "ds_sizes ds ''time'' = Some T" "ds_sizes ds ''y'' = Some Y" "ds_sizes ds ''x'' = Some X"
  shows "setup_indices ds L =
    (if L = 0 then Inl ValueError
     else if int T mod L = 0
       then Inr (product (map (\<lambda>k. int k * L) [0..<range_len 0 (int T) L])
                  (map int [0..<Y]) (map int [0..<X]))
       else Inl AssertionError)"
  using assms by (simp add: setup_indices_def dim_len_def py_range_def py_mod_def range_len_unit)

lemma init_fields:
  assumes "init ds tlo = Inr self"
  shows "data self = ds"
    and "numpy_data self = map_option da_values \<circ> ds_getitem ds"
    and "data_vars self = remdups (map fst (ds_data_vars ds))"
    and "dims self = map_option da_dims \<circ> ds_getitem ds"
    and "constants self = filter (is_constant ds) (remdups (map fst (ds_data_vars ds)))"
    and "std self = None"
    and "or_len_time tlo ds = Inr (time_length self)"
    and "setup_indices ds (time_length self) = Inr (indices self)"
  using assms by (auto simp: init_def split: sum.splits)

subsection \<open>The notebook's dataset, evaluated\<close>

lemma demo_sizes:
  "ds_sizes get_xarray_dataset ''time'' = Some 4"
  "ds_sizes get_xarray_dataset ''y'' = Some 5"
  "ds_sizes get_xarray_dataset ''x'' = Some 2"
  by (simp_all add: get_xarray_dataset_def)

lemma upt_5: "[0..<5] = [0, 1, 2, 3, 4]"
  by (simp add: upt_rec)

lemma upt_2: "[0..<2] = [0, 1]"
  by (simp add: upt_rec)

lemma demo_setup_indices:
  "setup_indices get_xarray_dataset 4 =
     Inr [(0, 0, 0), (0, 0, 1), (0, 1, 0), (0, 1, 1), (0, 2, 0), (0, 2, 1),
          (0, 3, 0), (0, 3, 1), (0, 4, 0), (0, 4, 1)]"
  by (simp add: setup_indices_dims [OF demo_sizes] range_len_def product_def upt_5 upt_2)

lemma demo_names:
  "remdups (map fst (ds_data_vars get_xarray_dataset)) = [StrName ''a'', StrName ''b'']"
  by (simp add: get_xarray_dataset_def)

lemma demo_constants:
  "\<not> is_constant get_xarray_dataset (StrName ''a'')"
  "\<not> is_constant get_xarray_dataset (StrName ''b'')"
  by (simp_all add: get_xarray_dataset_def is_constant_def ds_getitem_def)

lemma init_torch_dataset: "init get_xarray_dataset (Some 4) = Inr torch_dataset"
  by (simp add: init_def or_len_time_def demo_setup_indices demo_names demo_constants
      torch_dataset_def)

subsection \<open>Construction with a zero or an indivisible window length\<close>

text \<open>
  Claim C9. An explicit \<open>time_length\<close> of \<open>0\<close> is falsy, so \<open>__init__\<close> replaces it by
  the time extent: construction with \<open>0\<close> is construction without the argument, on
  every dataset, and it never ends in the failed assertion or in a division by zero.
\<close>

theorem zero_time_length_is_default:
  "init ds (Some 0) = init ds None \<and>
   init ds (Some 0) \<noteq> Inl AssertionError \<and>
   init ds (Some 0) \<noteq> Inl ZeroDivisionError"
proof -
  have same: "init ds (Some 0) = init ds None"
    by (simp add: init_def or_len_time_def)
  have "init ds None \<noteq> Inl AssertionError \<and> init ds None \<noteq> Inl ZeroDivisionError"
    by (auto simp: init_def or_len_time_def setup_indices_def dim_len_def py_range_def py_mod_def
        split: option.splits sum.splits)
  with same show ?thesis by simp
qed

theorem zero_time_length_is_default_witness:
  "init get_xarray_dataset (Some 0) = init get_xarray_dataset None \<and>
   init get_xarray_dataset (Some 0) \<noteq> Inl AssertionError \<and>
   init get_xarray_dataset (Some 0) \<noteq> Inl ZeroDivisionError \<and>
   map_sum id time_length (init get_xarray_dataset (Some 0)) = Inr 4"
proof -
  have "map_sum id time_length (init get_xarray_dataset None) = Inr 4"
    by (simp add: init_def or_len_time_def dim_len_def demo_sizes demo_setup_indices)
  then show ?thesis
    using zero_time_length_is_default [of get_xarray_dataset] by metis
qed

text \<open>
  Claim C3, as stated, fails at the window length \<open>0\<close>: \<open>0\<close> does not divide the time
  extent \<open>4\<close> of the notebook's dataset, and construction succeeds, with ten samples.
\<close>

theorem zero_time_length_counterexample:
  "ds_sizes get_xarray_dataset ''time'' = Some 4 \<and> \<not> (0::int) dvd 4 \<and>
   map_sum id len (init get_xarray_dataset (Some 0)) = Inr 10"
  by (simp add: init_def or_len_time_def dim_len_def demo_sizes demo_setup_indices len_def)

text \<open>
  Claim C3, amended. For a dataset of time extent \<open>T\<close> and an explicit window length
  \<open>L\<close> other than \<open>0\<close> with \<open>T % L \<noteq> 0\<close>, construction raises and there is no indexer;
  when the dataset also has the dimensions \<open>y\<close> and \<open>x\<close>, the exception is the
  \<open>AssertionError\<close> of the divisibility assertion.
\<close>

theorem indivisible_time_length_fails:
  assumes "ds_sizes ds ''time'' = Some T" and "L \<noteq> 0" and "int T mod L \<noteq> 0"
  shows "(\<exists>e. init ds (Some L) = Inl e) \<and>
         (ds_sizes ds ''y'' \<noteq> None \<and> ds_sizes ds ''x'' \<noteq> None \<longrightarrow>
            init ds (Some L) = Inl AssertionError)"
  using assms
  by (auto simp: init_def or_len_time_def setup_indices_def dim_len_def py_range_def py_mod_def
      split: option.splits sum.splits)

theorem indivisible_time_length_fails_witness:
  "ds_sizes get_xarray_dataset ''time'' = Some 4 \<and> (3::int) \<noteq> 0 \<and> int 4 mod 3 \<noteq> 0 \<and>
   init get_xarray_dataset (Some 3) = Inl AssertionError"
  using indivisible_time_length_fails [of get_xarray_dataset 4 3]
  by (simp add: demo_sizes)

subsection \<open>The sample index\<close>

lemma product_length: "length (product ts ys xs) = length ts * length ys * length xs"
  by (simp add: product_def)

lemma product_distinct:
  "distinct ts \<Longrightarrow> distinct ys \<Longrightarrow> distinct xs \<Longrightarrow> distinct (product ts ys xs)"
  by (simp add: product_def distinct_product)

lemma product_nth:
  assumes "i < length ts * (length ys * length xs)"
  shows "product ts ys xs ! i =
           (ts ! (i div (length ys * length xs)), ys ! (i div length xs mod length ys),
            xs ! (i mod length xs))"
proof -
  let ?m = "length ys * length xs"
  have pos: "0 < ?m" using assms by (cases "?m = 0") auto
  have inner: "i mod ?m < length ys * length xs" using pos by simp
  have xpos: "0 < length xs" using pos by simp
  have split: "i mod ?m = length xs * (i div length xs mod length ys) + i mod length xs"
    by (simp add: mult.commute [of "length ys"] mod_mult2_eq)
  have a: "i mod ?m div length xs = i div length xs mod length ys"
    unfolding split using xpos by simp
  have b: "i mod ?m mod length xs = i mod length xs"
    by (metis mod_mod_cancel dvd_triv_right)
  show ?thesis
    using assms inner by (simp add: product_def List.product_nth a b)
qed

lemma distinct_multiples: "L \<noteq> 0 \<Longrightarrow> distinct (map (\<lambda>k. int k * L) [0..<n])"
  by (simp add: distinct_map inj_on_def)

lemma distinct_ints: "distinct (map int [0..<n])"
  by (simp add: distinct_map inj_on_def)

lemma window_in_bounds:
  assumes "0 < L" and "k < T div nat L"
  shows "int k * L + L \<le> int T"
proof -
  obtain m where m: "L = int m" and mpos: "0 < m"
    using assms(1) by (metis nat_0_le less_le of_nat_0_less_iff)
  have "(k + 1) * m \<le> T div m * m"
    using assms(2) m by (intro mult_le_mono1) simp
  also have "\<dots> \<le> T" by simp
  finally have "int ((k + 1) * m) \<le> int T" by (simp only: of_nat_le_iff)
  then have "(int k + 1) * int m \<le> int T" by (simp only: of_nat_mult of_nat_add of_nat_1)
  then show ?thesis using m by (simp add: algebra_simps)
qed

text \<open>
  Claim C2, as stated, fails at a negative window length: \<open>-2\<close> divides the time
  extent \<open>4\<close> of the notebook's dataset (\<open>4 % -2 == 0\<close>, the assertion passes), and
  \<open>range(0, 4, -2)\<close> is empty, so the indexer has no sample, where the claimed count
  \<open>(4 / -2) * 5 * 2\<close> is not \<open>0\<close>.
\<close>

theorem negative_time_length_counterexample:
  "ds_sizes get_xarray_dataset ''time'' = Some 4 \<and> ds_sizes get_xarray_dataset ''y'' = Some 5 \<and>
   ds_sizes get_xarray_dataset ''x'' = Some 2 \<and> (4::int) mod (- 2) = 0 \<and>
   map_sum id len (init get_xarray_dataset (Some (- 2))) = Inr 0 \<and>
   (4 div (- 2)) * 5 * 2 \<noteq> (0::int)"
  by (simp add: demo_sizes init_def or_len_time_def setup_indices_dims [OF demo_sizes]
      range_len_def product_def len_def)

text \<open>
  Claim C2, amended. For a dataset of extents \<open>T\<close>, \<open>Y\<close>, \<open>X\<close> along \<open>time\<close>, \<open>y\<close>, \<open>x\<close>
  and a positive window length \<open>L\<close> with \<open>T % L = 0\<close>, construction succeeds; the sample
  count is \<open>(T / L) * Y * X\<close>; the sample index is the product of the window starts
  \<open>0, L, 2L, \<dots>\<close>, the \<open>y\<close> positions and the \<open>x\<close> positions, time outermost and \<open>x\<close>
  innermost, so that its \<open>i\<close>-th entry is \<open>((i div (Y * X)) * L, (i div X) mod Y, i mod X)\<close>;
  its entries are pairwise different and each lies within the dataset, the whole
  window \<open>[t, t + L)\<close> included.
\<close>

theorem sample_index_enumeration:
  assumes "ds_sizes ds ''time'' = Some T" and "ds_sizes ds ''y'' = Some Y"
    and "ds_sizes ds ''x'' = Some X" and "0 < L" and "int T mod L = 0"
  shows "\<exists>self. init ds (Some L) = Inr self \<and>
           len self = T div nat L * Y * X \<and>
           indices self =
             product (map (\<lambda>k. int k * L) [0..<T div nat L]) (map int [0..<Y]) (map int [0..<X]) \<and>
           distinct (indices self) \<and>
           (\<forall>i<len self. indices self ! i =
              (int (i div (Y * X)) * L, int (i div X mod Y), int (i mod X))) \<and>
           list_all (\<lambda>(t, y, x). 0 \<le> t \<and> t + L \<le> int T \<and> 0 \<le> y \<and> y < int Y \<and> 0 \<le> x \<and> x < int X)
             (indices self)"
proof -
  let ?idx = "product (map (\<lambda>k. int k * L) [0..<T div nat L]) (map int [0..<Y]) (map int [0..<X])"
  have st: "setup_indices ds L = Inr ?idx"
    using assms(4,5) by (simp add: setup_indices_dims [OF assms(1-3)] range_len_pos)
  obtain self where self: "init ds (Some L) = Inr self"
    using assms(4) st by (simp add: init_def or_len_time_def)
  have tl: "time_length self = L"
    using init_fields(7) [OF self] assms(4) by (simp add: or_len_time_def)
  have idx: "indices self = ?idx"
    using init_fields(8) [OF self] st tl by simp
  have count: "len self = T div nat L * Y * X"
    by (simp add: len_def idx product_length)
  have dist: "distinct (indices self)"
    unfolding idx using assms(4) by (intro product_distinct distinct_multiples distinct_ints) simp
  have nth: "indices self ! i = (int (i div (Y * X)) * L, int (i div X mod Y), int (i mod X))"
    if "i < len self" for i
  proof -
    from that have i: "i < T div nat L * (Y * X)" by (simp add: count mult.assoc)
    then have "0 < Y * X" by (cases "Y * X = 0") auto
    then have pos: "0 < Y" "0 < X" by simp_all
    have "i div (Y * X) < T div nat L"
      using i by (simp add: less_mult_imp_div_less)
    moreover have "i div X mod Y < Y" "i mod X < X" using pos by simp_all
    ultimately show ?thesis
      using i by (simp add: idx product_nth)
  qed
  have bounds: "list_all (\<lambda>(t, y, x). 0 \<le> t \<and> t + L \<le> int T \<and> 0 \<le> y \<and> y < int Y \<and> 0 \<le> x \<and> x < int X)
                  (indices self)"
    unfolding idx using assms(4)
    by (auto simp: list_all_iff product_def window_in_bounds)
  from self count idx dist nth bounds show ?thesis by blast
qed

theorem sample_index_enumeration_witness:
  "\<exists>self. init get_xarray_dataset (Some 2) = Inr self \<and> len self = 20 \<and>
          indices self ! 13 = (2, 1, 1) \<and> distinct (indices self)"
proof -
  obtain self where s: "init get_xarray_dataset (Some 2) = Inr self"
      "len self = 4 div nat 2 * 5 * 2" "distinct (indices self)"
      "\<forall>i<len self. indices self ! i = (int (i div (5 * 2)) * 2, int (i div 2 mod 5), int (i mod 2))"
    using sample_index_enumeration [OF demo_sizes, of 2] by auto
  have l: "len self = 20" using s(2) by simp
  then have "indices self ! 13 = (2, 1, 1)" using s(4) by simp
  with s(1,3) l show ?thesis by blast
qed

subsection \<open>Construction without a window length\<close>

text \<open>
  Claim C7, as stated, fails on a dataset whose time axis is empty: the default window
  length is then \<open>0\<close>, and \<open>range(0, 0, 0)\<close> raises \<open>ValueError\<close> before the assertion
  is reached.
\<close>

theorem empty_time_axis_counterexample:
  "ds_sizes empty_time_dataset ''time'' = Some 0 \<and> ds_sizes empty_time_dataset ''y'' = Some 5 \<and>
   ds_sizes empty_time_dataset ''x'' = Some 2 \<and> init empty_time_dataset None = Inl ValueError"
proof -
  have sz: "ds_sizes empty_time_dataset ''time'' = Some 0" "ds_sizes empty_time_dataset ''y'' = Some 5"
    "ds_sizes empty_time_dataset ''x'' = Some 2"
    by (simp_all add: empty_time_dataset_def)
  then show ?thesis
    by (simp add: init_def or_len_time_def dim_len_def setup_indices_dims [OF sz])
qed

text \<open>
  Claim C7, amended. For a dataset of extents \<open>T\<close>, \<open>Y\<close>, \<open>X\<close> with \<open>T\<close> positive,
  construction without a window length succeeds, sets \<open>time_length\<close> to \<open>T\<close>, for which
  the divisibility check \<open>T % time_length == 0\<close> holds, and the sample count is \<open>Y * X\<close>.
\<close>

theorem default_time_length:
  assumes "ds_sizes ds ''time'' = Some T" and "ds_sizes ds ''y'' = Some Y"
    and "ds_sizes ds ''x'' = Some X" and "0 < T"
  shows "\<exists>self. init ds None = Inr self \<and> time_length self = int T \<and>
           py_mod (int T) (time_length self) = Inr 0 \<and> len self = Y * X"
proof -
  have rl: "range_len 0 (int T) (int T) = 1"
    using assms(4) by (simp add: range_len_pos)
  have st: "setup_indices ds (int T) =
      Inr (product (map (\<lambda>k. int k * int T) [0..<1]) (map int [0..<Y]) (map int [0..<X]))"
    using assms(4) by (simp add: setup_indices_dims [OF assms(1-3)] rl)
  obtain self where self: "init ds None = Inr self"
    using st assms(1) by (simp add: init_def or_len_time_def dim_len_def)
  have tl: "time_length self = int T"
    using init_fields(7) [OF self] assms(1) by (simp add: or_len_time_def dim_len_def)
  have "indices self = product (map (\<lambda>k. int k * int T) [0..<1]) (map int [0..<Y]) (map int [0..<X])"
    using init_fields(8) [OF self] st tl by simp
  then have "len self = Y * X" by (simp add: len_def product_length)
  moreover have "py_mod (int T) (time_length self) = Inr 0"
    using assms(4) tl by (simp add: py_mod_def)
  ultimately show ?thesis using self tl by blast
qed

theorem default_time_length_witness:
  "\<exists>self. init get_xarray_dataset None = Inr self \<and> time_length self = 4 \<and> len self = 10"
proof -
  obtain self where "init get_xarray_dataset None = Inr self" "time_length self = int 4"
      "len self = 5 * 2"
    using default_time_length [OF demo_sizes] by auto
  then show ?thesis by auto
qed

subsection \<open>The dataset with a constant, evaluated\<close>

lemma const_sizes:
  "ds_sizes dataset_with_constant ''time'' = Some 4"
  "ds_sizes dataset_with_constant ''y'' = Some 5"
  "ds_sizes dataset_with_constant ''x'' = Some 2"
  by (simp_all add: dataset_with_constant_def)

lemma const_setup_indices:
  "setup_indices dataset_with_constant 4 =
     Inr [(0, 0, 0), (0, 0, 1), (0, 1, 0), (0, 1, 1), (0, 2, 0), (0, 2, 1),
          (0, 3, 0), (0, 3, 1), (0, 4, 0), (0, 4, 1)]"
  by (simp add: setup_indices_dims [OF const_sizes] range_len_def product_def upt_5 upt_2)

lemma const_names:
  "remdups (map fst (ds_data_vars dataset_with_constant)) =
     [StrName ''a'', StrName ''b'', StrName ''c'']"
  by (simp add: dataset_with_constant_def)

lemma const_constants:
  "\<not> is_constant dataset_with_constant (StrName ''a'')"
  "\<not> is_constant dataset_with_constant (StrName ''b'')"
  "is_constant dataset_with_constant (StrName ''c'')"
  by (simp_all add: dataset_with_constant_def is_constant_def ds_getitem_def)

lemma init_indexer_with_constant: "init dataset_with_constant None = Inr indexer_with_constant"
  by (simp add: init_def or_len_time_def dim_len_def const_sizes const_setup_indices const_names
      const_constants indexer_with_constant_def)

lemma len_torch_dataset: "len torch_dataset = 10"
  by (simp add: len_def torch_dataset_def)

lemma demo_lookup:
  "ds_getitem get_xarray_dataset (StrName ''a'') =
     Some \<lparr>da_dims = [''time'', ''z'', ''y'', ''x''], da_values = np_ones [4, 4, 5, 2]\<rparr>"
  "ds_getitem get_xarray_dataset (StrName ''b'') =
     Some \<lparr>da_dims = [''time'', ''y'', ''x''], da_values = np_ones [4, 5, 2]\<rparr>"
  by (simp_all add: ds_getitem_def get_xarray_dataset_def)

subsection \<open>The properties \<open>time_dim\<close> and \<open>scale\<close>\<close>

text \<open>
  Claim C10. On an indexer constructed from a dataset whose variables all have string
  names, \<open>time_dim\<close> raises \<open>KeyError\<close>: it looks the integer \<open>0\<close> up in the
  dictionary of dimension tuples, whose keys are the variable names. On any constructed
  indexer, an outcome other than \<open>KeyError\<close> needs a variable named \<open>0\<close>.
\<close>

theorem time_dim_key_error:
  assumes "init ds tlo = Inr self"
  shows "(list_all is_str (map fst (ds_data_vars ds)) \<longrightarrow> time_dim self = Inl KeyError) \<and>
         (time_dim self \<noteq> Inl KeyError \<longrightarrow> IntName 0 \<in> set (map fst (ds_data_vars ds)))"
proof -
  have absent: "time_dim self = Inl KeyError" if "IntName 0 \<notin> set (map fst (ds_data_vars ds))"
  proof -
    from that have "map_of (ds_data_vars ds) (IntName 0) = None"
      by (simp add: map_of_eq_None_iff)
    then show ?thesis
      by (simp add: time_dim_def init_fields(4) [OF assms] ds_getitem_def)
  qed
  have "IntName 0 \<notin> set (map fst (ds_data_vars ds))"
    if "list_all is_str (map fst (ds_data_vars ds))"
    using that by (force simp: list_all_iff)
  with absent show ?thesis by blast
qed

theorem time_dim_key_error_witness:
  "init get_xarray_dataset (Some 4) = Inr torch_dataset \<and>
   list_all is_str (map fst (ds_data_vars get_xarray_dataset)) \<and>
   time_dim torch_dataset = Inl KeyError"
proof -
  have s: "list_all is_str (map fst (ds_data_vars get_xarray_dataset))"
    by (simp add: get_xarray_dataset_def)
  with time_dim_key_error [OF init_torch_dataset] init_torch_dataset show ?thesis by simp
qed

lemma valmap_nd_max:
  "list_all (\<lambda>(k, v). flat v \<noteq> []) s \<Longrightarrow>
   valmap nd_max s = Inr (map (\<lambda>(k, v). (k, Max (set (flat v)))) s)"
  by (induction s) (auto simp: nd_max_def)

text \<open>
  On every constructed indexer \<open>scale\<close> raises \<open>AttributeError\<close>, in any namespace:
  \<open>__init__\<close> never sets \<open>std\<close>.
\<close>

lemma scale_without_std: "init ds tlo = Inr self \<Longrightarrow> scale g self = Inl AttributeError"
  by (simp add: scale_def init_fields(6))

text \<open>
  On an object on which \<open>std\<close> has been supplied, a dictionary of non-empty arrays,
  \<open>scale\<close> returns the largest element of each variable's array in a namespace that
  binds \<open>valmap\<close>, and raises \<open>NameError\<close> in the notebook's, which does not.
\<close>

lemma scale_valmap_bound:
  "std self = Some s \<Longrightarrow> ''valmap'' \<in> set g \<Longrightarrow> list_all (\<lambda>(k, v). flat v \<noteq> []) s \<Longrightarrow>
   scale g self = Inr (map (\<lambda>(k, v). (k, Max (set (flat v)))) s)"
  by (simp add: scale_def global_name_def valmap_nd_max)

lemma scale_valmap_unbound:
  "std self = Some s \<Longrightarrow> scale notebook_globals self = Inl NameError"
  by (simp add: scale_def global_name_def notebook_globals_def)

text \<open>
  Claim C8, in the notebook's own namespace. On the notebook's indexer \<open>scale\<close> raises
  \<open>AttributeError\<close>, as the claim says of an indexer without \<open>std\<close>. With
  \<open>std = {'b': [2, 7, 5]}\<close> supplied on it, \<open>scale\<close> raises \<open>NameError\<close> instead of
  returning the maximum \<open>7\<close> for \<open>b\<close>: the notebook never binds \<open>valmap\<close>. In a namespace
  with \<open>valmap\<close> the same call returns \<open>{'b': 7}\<close>.
\<close>

theorem scale_name_error:
  "init get_xarray_dataset (Some 4) = Inr torch_dataset \<and>
   scale notebook_globals torch_dataset = Inl AttributeError \<and>
   ''valmap'' \<notin> set notebook_globals \<and>
   scale notebook_globals torch_dataset_with_std = Inl NameError \<and>
   scale (''valmap'' # notebook_globals) torch_dataset_with_std = Inr [(StrName ''b'', 7)]"
proof -
  have s: "std torch_dataset_with_std =
      Some [(StrName ''b'', \<lparr>shape = [3], dtype = Float64, flat = [2, 7, 5]\<rparr>)]"
    by (simp add: torch_dataset_with_std_def)
  have a: "scale notebook_globals torch_dataset = Inl AttributeError"
    by (rule scale_without_std [OF init_torch_dataset])
  have b: "''valmap'' \<notin> set notebook_globals"
    by (simp add: notebook_globals_def)
  have c: "scale notebook_globals torch_dataset_with_std = Inl NameError"
    by (rule scale_valmap_unbound [OF s])
  have d: "scale (''valmap'' # notebook_globals) torch_dataset_with_std = Inr [(StrName ''b'', 7)]"
    by (simp add: scale_valmap_bound [OF s])
  from init_torch_dataset a b c d show ?thesis by simp
qed

subsection \<open>Retrieval outside the sample index\<close>




subsection \<open>Retrieval and the constants\<close>

lemma getitem_loop_dom:
  "getitem_loop cast self idx keys out0 = Inr out \<Longrightarrow>
   dom out = dom out0 \<union> (set keys - set (constants self))"
proof (induction keys arbitrary: out0)
  case Nil
  then show ?case by simp
next
  case (Cons key keys)
  show ?case
  proof (cases "key \<in> set (constants self)")
    case True
    with Cons.prems have "getitem_loop cast self idx keys out0 = Inr out" by simp
    from Cons.IH [OF this] True show ?thesis by auto
  next
    case False
    with Cons.prems obtain sample where
      "getitem_loop cast self idx keys (out0(key \<mapsto> sample)) = Inr out"
      by (auto split: sum.splits)
    from Cons.IH [OF this] False show ?thesis by (auto split: if_splits)
  qed
qed

lemma getitem_loop_Inr:
  assumes "\<And>key. key \<in> set keys \<Longrightarrow> key \<notin> set (constants self) \<Longrightarrow>
             getitem_var cast self idx key = Inr (f key)"
  shows "getitem_loop cast self idx keys out0 =
           Inr (\<lambda>k. if k \<in> set keys \<and> k \<notin> set (constants self) then Some (f k) else out0 k)"
  using assms
proof (induction keys arbitrary: out0)
  case Nil
  then show ?case by simp
next
  case (Cons key keys)
  have rest: "getitem_loop cast self idx keys m =
      Inr (\<lambda>k. if k \<in> set keys \<and> k \<notin> set (constants self) then Some (f k) else m k)" for m
    using Cons.prems by (intro Cons.IH) simp
  show ?case
  proof (cases "key \<in> set (constants self)")
    case True
    then show ?thesis by (auto simp: rest fun_eq_iff)
  next
    case False
    then have "getitem_var cast self idx key = Inr (f key)" using Cons.prems by simp
    with False show ?thesis by (auto simp: rest fun_eq_iff)
  qed
qed

lemma const_lookup:
  "ds_getitem dataset_with_constant (StrName ''a'') =
     Some \<lparr>da_dims = [''time'', ''z'', ''y'', ''x''], da_values = np_ones [4, 4, 5, 2]\<rparr>"
  "ds_getitem dataset_with_constant (StrName ''b'') =
     Some \<lparr>da_dims = [''time'', ''y'', ''x''], da_values = np_ones [4, 5, 2]\<rparr>"
  "ds_getitem dataset_with_constant (StrName ''c'') =
     Some \<lparr>da_dims = [''z''], da_values = np_ones [4]\<rparr>"
  by (simp_all add: ds_getitem_def dataset_with_constant_def)

lemma const_getitem_0:
  "result_shape (getitem exact_cast indexer_with_constant 0) (StrName ''a'') = Inr (Some [4, 4, 1, 1])"
  by (simp add: result_shape_def getitem_def list_getitem_def
      norm_index_def indexer_with_constant_def getitem_var_def const_lookup nd_getitem_def np_ones_def
      slice_start_def slice_stop_def clip_def astype_def)

lemma const_fields:
  "data_vars indexer_with_constant = [StrName ''a'', StrName ''b'', StrName ''c'']"
  "constants indexer_with_constant = [StrName ''c'']"
  by (simp_all add: indexer_with_constant_def)

lemma result_shape_Inr: "result_shape r key = Inr s \<Longrightarrow> \<exists>out. r = Inr out"
  by (cases r) (simp_all add: result_shape_def)

text \<open>
  Claim C5. On a constructed indexer, a variable is among the constants exactly when it
  is a variable of the dataset whose dimensions share nothing with \<open>x\<close>, \<open>y\<close>, \<open>time\<close>;
  and the result of every retrieval that returns has the variables that are not constants
  as its keys, so no constant is among them.
\<close>

theorem constants_excluded:
  assumes "init ds tlo = Inr self"
  shows "(\<forall>key. key \<in> set (constants self) \<longleftrightarrow>
            (\<exists>v. ds_getitem ds key = Some v \<and> {''x'', ''y'', ''time''} \<inter> set (da_dims v) = {})) \<and>
         (\<forall>i out. getitem cast self i = Inr out \<longrightarrow>
            dom out = set (data_vars self) - set (constants self))"
proof -
  have "key \<in> set (constants self) \<longleftrightarrow>
          (\<exists>v. ds_getitem ds key = Some v \<and> {''x'', ''y'', ''time''} \<inter> set (da_dims v) = {})" for key
  proof -
    have "key \<in> set (map fst (ds_data_vars ds))" if "ds_getitem ds key = Some v" for v
      using that by (auto simp: ds_getitem_def dest: map_of_SomeD intro: rev_image_eqI)
    then show ?thesis
      by (auto simp: init_fields(5) [OF assms] is_constant_def split: option.splits)
  qed
  moreover have "dom out = set (data_vars self) - set (constants self)"
    if "getitem cast self i = Inr out" for i out
  proof -
    from that obtain idx where
      "getitem_loop cast self idx (data_vars self) Map.empty = Inr out"
      by (auto simp: getitem_def split: sum.splits)
    from getitem_loop_dom [OF this] show ?thesis by simp
  qed
  ultimately show ?thesis by blast
qed

theorem constants_excluded_witness:
  "init dataset_with_constant None = Inr indexer_with_constant \<and>
   constants indexer_with_constant = [StrName ''c''] \<and>
   (\<exists>out. getitem exact_cast indexer_with_constant 0 = Inr out \<and>
      dom out = {StrName ''a'', StrName ''b''})"
proof -
  have "\<exists>out. getitem exact_cast indexer_with_constant 0 = Inr out"
    by (rule result_shape_Inr [OF const_getitem_0])
  then obtain out where out: "getitem exact_cast indexer_with_constant 0 = Inr out" ..
  note constants_excluded [OF init_indexer_with_constant, of exact_cast, THEN conjunct2,
      rule_format, OF out]
  then have d: "dom out = {StrName ''a'', StrName ''b''}"
    unfolding const_fields by (simp add: insert_Diff_if)
  show ?thesis
    by (intro conjI exI [of _ out]) (rule init_indexer_with_constant const_fields(2) out d)+
qed

subsection \<open>The shape of a sample\<close>

lemma index_entry_bounds:
  assumes "init ds tlo = Inr self" and "(t, y, x) \<in> set (indices self)"
  obtains T Y X where
    "ds_sizes ds ''time'' = Some T" "ds_sizes ds ''y'' = Some Y" "ds_sizes ds ''x'' = Some X"
    "0 < time_length self" "0 \<le> t" "t + time_length self \<le> int T"
    "0 \<le> y" "y < int Y" "0 \<le> x" "x < int X"
proof -
  let ?L = "time_length self"
  note su = init_fields(8) [OF assms(1)]
  then have "\<exists>T Y X. ds_sizes ds ''time'' = Some T \<and> ds_sizes ds ''y'' = Some Y \<and>
      ds_sizes ds ''x'' = Some X"
    by (auto simp: setup_indices_def dim_len_def split: option.splits sum.splits)
  then obtain T Y X where sz: "ds_sizes ds ''time'' = Some T" "ds_sizes ds ''y'' = Some Y"
      "ds_sizes ds ''x'' = Some X" by blast
  from su have nz: "?L \<noteq> 0" and dv: "int T mod ?L = 0"
    and idx: "indices self = product (map (\<lambda>k. int k * ?L) [0..<range_len 0 (int T) ?L])
                  (map int [0..<Y]) (map int [0..<X])"
    by (auto simp: setup_indices_dims [OF sz] split: if_splits)
  from assms(2) obtain k where k: "k < range_len 0 (int T) ?L" "t = int k * ?L"
    and yx: "0 \<le> y" "y < int Y" "0 \<le> x" "x < int X"
    unfolding idx product_def by auto
  have pos: "0 < ?L"
  proof (rule ccontr)
    assume "\<not> 0 < ?L"
    with nz have "?L < 0" by simp
    then have "range_len 0 (int T) ?L = 0" by (rule range_len_neg)
    with k(1) show False by simp
  qed
  with k(1) dv have "k < T div nat ?L" by (simp add: range_len_pos)
  from window_in_bounds [OF pos this] have "t + ?L \<le> int T" by (simp add: k(2))
  moreover have "0 \<le> t" using pos by (simp add: k(2))
  ultimately show thesis using that sz pos yx by blast
qed

lemma window_slice_len:
  assumes "0 < L" "0 \<le> t" "t + L \<le> int T"
  shows "slice_stop (Some (t + L)) T - slice_start (Some t) T = nat L"
proof -
  have a: "clip (t + L) T = nat (t + L)" using assms by (auto simp: clip_def min_def)
  have b: "clip t T = nat t" using assms by (auto simp: clip_def min_def)
  have "nat (t + L) - nat t = nat L" using assms by arith
  then show ?thesis by (simp add: slice_start_def slice_stop_def a b)
qed

lemma profile_index_shape:
  assumes "0 < L" "0 \<le> t" "t + L \<le> int T" "0 \<le> y" "y < int Y" "0 \<le> x" "x < int X"
  shows "index_shape [Slc (Some t) (Some (t + L)), Slc None None, Idx y, Idx x] [T, Z, Y, X] =
           Inr [nat L, Z]"
  using assms window_slice_len [of L t T]
  by (simp add: slice_start_def [of None] slice_stop_def [of None])

lemma surface_index_shape:
  assumes "0 < L" "0 \<le> t" "t + L \<le> int T" "0 \<le> y" "y < int Y" "0 \<le> x" "x < int X"
  shows "index_shape [Slc (Some t) (Some (t + L)), NewAxis, Idx y, Idx x] [T, Y, X] =
           Inr [nat L, 1]"
  using assms window_slice_len [of L t T] by simp

lemma trailing_unit_axes:
  "index_shape [Slc None None, Slc None None, NewAxis, NewAxis] [m, n] = Inr [m, n, 1, 1]"
  by (simp add: slice_start_def slice_stop_def)

lemma wf_dataset_var:
  assumes "wf_dataset ds" and "ds_getitem ds key = Some v"
  shows "map (ds_sizes ds) (da_dims v) = map Some (shape (da_values v))"
proof -
  from assms(2) have "(key, v) \<in> set (ds_data_vars ds)"
    by (simp add: ds_getitem_def map_of_SomeD)
  with assms(1) show ?thesis by (auto simp: wf_dataset_def list_all_iff)
qed

lemma canonical_layout_var:
  assumes "canonical_layout ds" and "ds_getitem ds key = Some v"
  shows "canonical_dims (da_dims v)"
proof -
  from assms(2) have "(key, v) \<in> set (ds_data_vars ds)"
    by (simp add: ds_getitem_def map_of_SomeD)
  with assms(1) show ?thesis by (auto simp: canonical_layout_def list_all_iff)
qed

lemma getitem_var_shape:
  assumes wf: "wf_dataset ds" and cl: "canonical_layout ds" and init: "init ds tlo = Inr self"
    and idx: "(t, y, x) \<in> set (indices self)"
    and v: "ds_getitem ds key = Some v"
    and nc: "{''x'', ''y'', ''time''} \<inter> set (da_dims v) \<noteq> {}"
  shows "\<exists>arr. getitem_var cast self (t, y, x) key = Inr arr \<and> dtype arr = Float32 \<and>
           shape arr = (if ''z'' \<in> set (da_dims v)
                        then [nat (time_length self), the (ds_sizes ds ''z''), 1, 1]
                        else [nat (time_length self), 1, 1, 1])"
proof -
  let ?L = "time_length self"
  from index_entry_bounds [OF init idx] obtain T Y X where
    sz: "ds_sizes ds ''time'' = Some T" "ds_sizes ds ''y'' = Some Y" "ds_sizes ds ''x'' = Some X"
    and b: "0 < ?L" "0 \<le> t" "t + ?L \<le> int T" "0 \<le> y" "y < int Y" "0 \<le> x" "x < int X"
    by blast
  have nd: "numpy_data self key = Some (da_values v)" and dm: "dims self key = Some (da_dims v)"
    by (simp_all add: init_fields(2,4) [OF init] v)
  from canonical_layout_var [OF cl v] nc
  consider (profile) "da_dims v = [''time'', ''z'', ''y'', ''x'']"
    | (surface) "da_dims v = [''time'', ''y'', ''x'']"
    by (auto simp: canonical_dims_def)
  then show ?thesis
  proof cases
    case profile
    from wf_dataset_var [OF wf v] obtain Z where
      z: "ds_sizes ds ''z'' = Some Z" and sh: "shape (da_values v) = [T, Z, Y, X]"
      by (auto simp: profile sz map_eq_Cons_conv)
    show ?thesis
      by (simp add: getitem_var_def nd dm profile nd_getitem_def sh z
          profile_index_shape [OF b] trailing_unit_axes astype_def del: index_shape.simps)
  next
    case surface
    from wf_dataset_var [OF wf v] have sh: "shape (da_values v) = [T, Y, X]"
      by (auto simp: surface sz map_eq_Cons_conv)
    show ?thesis
      by (simp add: getitem_var_def nd dm surface nd_getitem_def sh
          surface_index_shape [OF b] trailing_unit_axes astype_def del: index_shape.simps)
  qed
qed

lemma list_getitem_mem:
  "0 \<le> i \<Longrightarrow> i < int (length xs) \<Longrightarrow> \<exists>e. list_getitem xs i = Inr e \<and> e \<in> set xs"
  by (simp add: list_getitem_def norm_index_def)

lemma data_var_lookup:
  assumes "init ds tlo = Inr self" and "key \<in> set (data_vars self)"
  shows "\<exists>v. ds_getitem ds key = Some v"
proof -
  from assms have "key \<in> fst ` set (ds_data_vars ds)"
    by (simp add: init_fields(3) [OF assms(1)])
  then show ?thesis
    by (cases "map_of (ds_data_vars ds) key") (auto simp: ds_getitem_def map_of_eq_None_iff)
qed

lemma not_constant:
  assumes "init ds tlo = Inr self" and "key \<in> set (data_vars self)"
    and "key \<notin> set (constants self)" and "ds_getitem ds key = Some v"
  shows "{''x'', ''y'', ''time''} \<inter> set (da_dims v) \<noteq> {}"
  using assms(2-4) by (auto simp: init_fields(3,5) [OF assms(1)] is_constant_def)

lemma demo_wf: "wf_dataset get_xarray_dataset"
  by (simp add: wf_dataset_def get_xarray_dataset_def np_ones_def)

lemma demo_canonical: "canonical_layout get_xarray_dataset"
  by (simp add: canonical_layout_def canonical_dims_def get_xarray_dataset_def)

lemma torch_dataset_fields:
  "constants torch_dataset = []" "time_length torch_dataset = 4"
  by (simp_all add: torch_dataset_def)

lemma yx_sizes:
  "ds_sizes dataset_with_yx_variable ''time'' = Some 4"
  "ds_sizes dataset_with_yx_variable ''y'' = Some 5"
  "ds_sizes dataset_with_yx_variable ''x'' = Some 2"
  by (simp_all add: dataset_with_yx_variable_def)

lemma yx_setup_indices:
  "setup_indices dataset_with_yx_variable 4 =
     Inr [(0, 0, 0), (0, 0, 1), (0, 1, 0), (0, 1, 1), (0, 2, 0), (0, 2, 1),
          (0, 3, 0), (0, 3, 1), (0, 4, 0), (0, 4, 1)]"
  by (simp add: setup_indices_dims [OF yx_sizes] range_len_def product_def upt_5 upt_2)

lemma yx_names:
  "remdups (map fst (ds_data_vars dataset_with_yx_variable)) = [StrName ''a'', StrName ''d'']"
  by (simp add: dataset_with_yx_variable_def)

lemma yx_constants:
  "\<not> is_constant dataset_with_yx_variable (StrName ''a'')"
  "\<not> is_constant dataset_with_yx_variable (StrName ''d'')"
  by (simp_all add: dataset_with_yx_variable_def is_constant_def ds_getitem_def)

lemma init_indexer_with_yx_variable:
  "init dataset_with_yx_variable (Some 4) = Inr indexer_with_yx_variable"
  by (simp add: init_def or_len_time_def yx_setup_indices yx_names yx_constants
      indexer_with_yx_variable_def)

lemma yx_lookup:
  "ds_getitem dataset_with_yx_variable (StrName ''a'') =
     Some \<lparr>da_dims = [''time'', ''z'', ''y'', ''x''], da_values = np_ones [4, 4, 5, 2]\<rparr>"
  "ds_getitem dataset_with_yx_variable (StrName ''d'') =
     Some \<lparr>da_dims = [''y'', ''x''], da_values = np_ones [5, 2]\<rparr>"
  by (simp_all add: ds_getitem_def dataset_with_yx_variable_def)

lemma yx_wf: "wf_dataset dataset_with_yx_variable"
  by (simp add: wf_dataset_def dataset_with_yx_variable_def np_ones_def)

text \<open>
  Claim C1, as stated, fails on a variable that is not a constant and is outside the
  layout the class documents. The dataset with \<open>d\<close> over \<open>(y, x)\<close> is one of xarray's
  and the constructor accepts it, with ten samples and no constant; at the valid index
  \<open>0\<close> the index tuple \<open>(slice(0, 4), None, 0, 0)\<close> has one integer more than \<open>d\<close> has
  axes left, and retrieval raises \<open>IndexError\<close> instead of returning arrays.
\<close>

theorem yx_variable_counterexample:
  "wf_dataset dataset_with_yx_variable \<and>
   init dataset_with_yx_variable (Some 4) = Inr indexer_with_yx_variable \<and>
   len indexer_with_yx_variable = 10 \<and>
   constants indexer_with_yx_variable = [] \<and>
   getitem exact_cast indexer_with_yx_variable 0 = Inl IndexError"
proof -
  have "getitem exact_cast indexer_with_yx_variable 0 = Inl IndexError"
    by (simp add: getitem_def list_getitem_def norm_index_def indexer_with_yx_variable_def
        getitem_var_def yx_lookup nd_getitem_def np_ones_def slice_start_def slice_stop_def
        clip_def astype_def)
  moreover have "len indexer_with_yx_variable = 10" "constants indexer_with_yx_variable = []"
    by (simp_all add: len_def indexer_with_yx_variable_def)
  ultimately show ?thesis
    using yx_wf init_indexer_with_yx_variable by simp
qed

text \<open>
  Claim C1, amended. Let the dataset be one of xarray's (each array has the extents of
  its dimensions) in the layout the class documents: a variable that is not a constant
  has the dimensions \<open>(time, z, y, x)\<close> or \<open>(time, y, x)\<close>, in this order. On an indexer
  constructed from it, retrieval at every index \<open>i\<close> with \<open>0 \<le> i < len\<close> returns; the
  result has the variables that are not constants as its keys; and the array of each is
  of element type \<open>float32\<close> and of shape \<open>(time_length, z_extent, 1, 1)\<close> when the
  variable has the dimension \<open>z\<close>, \<open>(time_length, 1, 1, 1)\<close> when not.
\<close>

theorem getitem_shapes:
  assumes "wf_dataset ds" and "canonical_layout ds" and "init ds tlo = Inr self"
    and "0 \<le> i" and "i < int (len self)"
  shows "\<exists>out. getitem cast self i = Inr out \<and>
           dom out = set (data_vars self) - set (constants self) \<and>
           (\<forall>key v. ds_getitem ds key = Some v \<and> key \<notin> set (constants self) \<longrightarrow>
              (\<exists>arr. out key = Some arr \<and> dtype arr = Float32 \<and>
                 shape arr = (if ''z'' \<in> set (da_dims v)
                              then [nat (time_length self), the (ds_sizes ds ''z''), 1, 1]
                              else [nat (time_length self), 1, 1, 1])))"
proof -
  from list_getitem_mem [of i "indices self"] assms(4,5)
  obtain idx where idx: "list_getitem (indices self) i = Inr idx" "idx \<in> set (indices self)"
    by (auto simp: len_def)
  obtain t y x where txy: "idx = (t, y, x)" by (cases idx)
  let ?f = "\<lambda>key. projr (getitem_var cast self idx key)"
  have var: "\<exists>arr. getitem_var cast self idx key = Inr arr \<and> dtype arr = Float32 \<and>
           shape arr = (if ''z'' \<in> set (da_dims v)
                        then [nat (time_length self), the (ds_sizes ds ''z''), 1, 1]
                        else [nat (time_length self), 1, 1, 1])"
    if "key \<in> set (data_vars self)" "key \<notin> set (constants self)" "ds_getitem ds key = Some v"
    for key v
    unfolding txy
    using getitem_var_shape [OF assms(1-3) idx(2) [unfolded txy] that(3)
        not_constant [OF assms(3) that]] .
  have "getitem_var cast self idx key = Inr (?f key)"
    if "key \<in> set (data_vars self)" "key \<notin> set (constants self)" for key
  proof -
    from data_var_lookup [OF assms(3) that(1)] obtain v where "ds_getitem ds key = Some v" ..
    from var [OF that this] show ?thesis by auto
  qed
  from getitem_loop_Inr [of "data_vars self" self cast idx ?f, OF this]
  have loop: "getitem_loop cast self idx (data_vars self) Map.empty =
      Inr (\<lambda>k. if k \<in> set (data_vars self) \<and> k \<notin> set (constants self) then Some (?f k) else None)"
    by simp
  let ?out = "\<lambda>k. if k \<in> set (data_vars self) \<and> k \<notin> set (constants self) then Some (?f k) else None"
  have g: "getitem cast self i = Inr ?out"
    by (simp add: getitem_def idx(1) loop)
  have d: "dom ?out = set (data_vars self) - set (constants self)"
    by (auto simp: dom_def)
  have sh: "\<exists>arr. ?out key = Some arr \<and> dtype arr = Float32 \<and>
                 shape arr = (if ''z'' \<in> set (da_dims v)
                              then [nat (time_length self), the (ds_sizes ds ''z''), 1, 1]
                              else [nat (time_length self), 1, 1, 1])"
    if "ds_getitem ds key = Some v" "key \<notin> set (constants self)" for key v
  proof -
    from that(1) have "key \<in> set (data_vars self)"
      by (auto simp: init_fields(3) [OF assms(3)] ds_getitem_def dest: map_of_SomeD
          intro: rev_image_eqI)
    from var [OF this that(2,1)] this that(2) show ?thesis by auto
  qed
  show ?thesis
    by (intro exI [of _ ?out] conjI allI impI) (rule g d | elim conjE, rule sh, assumption+)+
qed

theorem getitem_shapes_witness:
  "wf_dataset get_xarray_dataset \<and> canonical_layout get_xarray_dataset \<and>
   init get_xarray_dataset (Some 4) = Inr torch_dataset \<and>
   (\<exists>out a b. getitem exact_cast torch_dataset 0 = Inr out \<and>
      out (StrName ''a'') = Some a \<and> shape a = [4, 4, 1, 1] \<and> dtype a = Float32 \<and>
      out (StrName ''b'') = Some b \<and> shape b = [4, 1, 1, 1] \<and> dtype b = Float32)"
proof -
  have "0 \<le> (0::int)" "(0::int) < int (len torch_dataset)"
    by (simp_all add: len_torch_dataset)
  from getitem_shapes [OF demo_wf demo_canonical init_torch_dataset this, of exact_cast]
  obtain out where out: "getitem exact_cast torch_dataset 0 = Inr out"
    and sh: "\<And>key v. ds_getitem get_xarray_dataset key = Some v \<Longrightarrow>
        key \<notin> set (constants torch_dataset) \<Longrightarrow>
        \<exists>arr. out key = Some arr \<and> dtype arr = Float32 \<and>
          shape arr = (if ''z'' \<in> set (da_dims v)
                       then [nat (time_length torch_dataset), the (ds_sizes get_xarray_dataset ''z''), 1, 1]
                       else [nat (time_length torch_dataset), 1, 1, 1])"
    by blast
  have z: "ds_sizes get_xarray_dataset ''z'' = Some 4" by (simp add: get_xarray_dataset_def)
  from sh [OF demo_lookup(1)] obtain a where
    a: "out (StrName ''a'') = Some a" "shape a = [4, 4, 1, 1]" "dtype a = Float32"
    by (auto simp: torch_dataset_fields z)
  from sh [OF demo_lookup(2)] obtain b where
    b: "out (StrName ''b'') = Some b" "shape b = [4, 1, 1, 1]" "dtype b = Float32"
    by (auto simp: torch_dataset_fields)
  show ?thesis
    by (intro conjI exI [of _ out] exI [of _ a] exI [of _ b])
      (rule demo_wf demo_canonical init_torch_dataset out a b)+
qed

subsection \<open>The constants as tensors\<close>

lemma torch_constants_loop_unbound:
  "''torch'' \<notin> set g \<Longrightarrow> keys \<noteq> [] \<Longrightarrow>
   torch_constants_loop g cast self keys out = Inl NameError"
  by (cases keys) (simp_all add: global_name_def)

lemma torch_constants_loop_bound:
  assumes "''torch'' \<in> set g"
    and "\<And>key. key \<in> set keys \<Longrightarrow> ds_getitem (data self) key = Some (f key)"
  shows "torch_constants_loop g cast self keys out0 =
           Inr (\<lambda>k. if k \<in> set keys
                     then Some (tensor_float cast (torch_tensor (da_values (f k)) False))
                     else out0 k)"
  using assms(2)
proof (induction keys arbitrary: out0)
  case Nil
  then show ?case by simp
next
  case (Cons key keys)
  have rest: "torch_constants_loop g cast self keys m =
      Inr (\<lambda>k. if k \<in> set keys
                then Some (tensor_float cast (torch_tensor (da_values (f k)) False))
                else m k)" for m
    using Cons.prems by (intro Cons.IH) simp
  have "ds_getitem (data self) key = Some (f key)" using Cons.prems by simp
  then show ?case
    using assms(1) by (auto simp: rest global_name_def fun_eq_iff)
qed

text \<open>
  In a namespace that binds \<open>torch\<close>, \<open>torch_constants\<close> on a constructed indexer
  returns the dictionary from each constant's name to the tensor of its whole array,
  converted to \<open>float32\<close>, with \<open>requires_grad\<close> false.
\<close>

lemma torch_constants_when_torch_bound:
  assumes "init ds tlo = Inr self" and "''torch'' \<in> set g"
  shows "\<exists>out. torch_constants g cast self = Inr out \<and> dom out = set (constants self) \<and>
           (\<forall>key v. key \<in> set (constants self) \<and> ds_getitem ds key = Some v \<longrightarrow>
              out key = Some \<lparr>t_shape = shape (da_values v), t_dtype = Float32,
                              t_data = map (cast Float32) (flat (da_values v)),
                              requires_grad = False\<rparr>)"
proof -
  let ?f = "\<lambda>key. the (ds_getitem ds key)"
  have "ds_getitem (data self) key = Some (?f key)" if "key \<in> set (constants self)" for key
    using that
    by (auto simp: init_fields(1,5) [OF assms(1)] is_constant_def split: option.splits)
  from torch_constants_loop_bound [of g "constants self" self ?f, OF assms(2) this]
  have "torch_constants g cast self =
      Inr (\<lambda>k. if k \<in> set (constants self)
                then Some (tensor_float cast (torch_tensor (da_values (?f k)) False))
                else None)"
    by (simp add: torch_constants_def)
  then show ?thesis
    by (auto simp: dom_def tensor_float_def torch_tensor_def)
qed

text \<open>
  Claim C6, in the notebook's own namespace. The notebook imports \<open>Dataset\<close> and
  \<open>DataLoader\<close> from \<open>torch.utils.data\<close> and never binds the name \<open>torch\<close>; on the
  indexer of a dataset with a constant, \<open>torch_constants\<close> raises \<open>NameError\<close> at the
  first constant instead of returning the dictionary of tensors.
\<close>

theorem torch_constants_name_error:
  "init dataset_with_constant None = Inr indexer_with_constant \<and>
   constants indexer_with_constant = [StrName ''c''] \<and>
   ''torch'' \<notin> set notebook_globals \<and>
   torch_constants notebook_globals exact_cast indexer_with_constant = Inl NameError"
proof -
  have nb: "''torch'' \<notin> set notebook_globals"
    by (simp add: notebook_globals_def)
  have "torch_constants notebook_globals exact_cast indexer_with_constant = Inl NameError"
    unfolding torch_constants_def
    by (rule torch_constants_loop_unbound [OF nb]) (simp add: const_fields)
  with nb show ?thesis
    by (simp add: init_indexer_with_constant const_fields)
qed

end
